theory Spec2Isabelle
  imports Complex_Main
begin

section \<open>lvsfunc.denoise: the data model\<close>

text \<open>
  The module \<^verbatim>\<open>lvsfunc/denoise.py\<close> composes VapourSynth filters. A call of a
  VapourSynth filter does not compute pixels: it returns a handle on a new node of a lazy
  filter graph. The embedding therefore represents a clip by the term that describes how
  it was built: one constructor per external filter the source calls, holding the
  arguments the source passes. Two clips are equal when they are the same filter applied
  to the same inputs with the same arguments; this is equality of graph descriptions, not
  Python object identity.

  Python exceptions are values of the type \<open>error\<close>; a function of the source that may
  raise returns \<open>error + 'a\<close>, with \<open>Inl\<close> for the exception.
\<close>

subsection \<open>Formats and input clips\<close>

datatype color_family = GRAY | RGB | YUV | YCOCG | COMPAT

datatype sample_type = INTEGER | FLOAT

record video_format =
  color_family :: color_family
  sample_type :: sample_type
  bits_per_sample :: nat
  subsampling_w :: nat
  subsampling_h :: nat

text \<open>
  VapourSynth gives one plane to a GRAY or COMPAT format and three planes to every other
  colour family.
\<close>

definition num_planes :: "video_format \<Rightarrow> nat" where
  "num_planes f = (if color_family f = GRAY \<or> color_family f = COMPAT then 1 else 3)"

text \<open>
  An input \<^verbatim>\<open>vs.VideoNode\<close>: \<^verbatim>\<open>clip.format\<close> is \<^verbatim>\<open>None\<close> for a clip of variable
  format; \<open>clip_id\<close> stands for everything else that tells one input clip from another.
\<close>

record video_node =
  format :: "video_format option"
  clip_id :: nat

subsection \<open>Python values\<close>

text \<open>
  Numbers that the source receives as \<^verbatim>\<open>int\<close> or \<^verbatim>\<open>float\<close>
  (\<^verbatim>\<open>sigma\<close>, \<^verbatim>\<open>brz_a\<close>, \<^verbatim>\<open>brz_b\<close>). A float is represented by the rational
  number it denotes; NaN and the infinities are outside the model.
\<close>

datatype pynum = PInt int | PFloat rat

text \<open>
  \<^verbatim>\<open>cmode\<close> is annotated \<^verbatim>\<open>str\<close>, but the dispatch lists of the source also
  hold the integers 1 to 4, so the argument is a string or an integer. A string is a list
  of code points below 256.
\<close>

datatype cmode_arg = CStr string | CInt int

text \<open>
  The values of \<^verbatim>\<open>**kwargs\<close>: integers (\<^verbatim>\<open>sbsize\<close>, \<^verbatim>\<open>d\<close>, \<^verbatim>\<open>a\<close>, ...) and
  strings (\<^verbatim>\<open>device_type\<close>, ...). The dictionary keeps its insertion order and is
  looked up with \<open>map_of\<close>.
\<close>

datatype kwval = KInt int | KStr string

type_synonym kwargs = "(string \<times> kwval) list"

text \<open>
  The exceptions, by Python class, with the message. Two carry other data:
  \<^item> \<open>TypeError_multiple_values k\<close> is the \<^verbatim>\<open>TypeError\<close> of a call that receives the
    keyword \<open>k\<close> twice. Its message is
    \<^verbatim>\<open><callee> got multiple values for keyword argument '<k>'\<close>; how the callee is
    printed depends on the callee object and on the Python version, so the model keeps
    the key and not the text;
  \<^item> \<open>VapourSynthError name\<close> is a \<^verbatim>\<open>vapoursynth.Error\<close> raised by the filter
    \<open>name\<close> when it refuses the format of its input; the text is the filter's own.
\<close>

datatype error =
    ModuleNotFoundError string
  | ValueError string
  | AttributeError string
  | TypeError string
  | TypeError_multiple_values string
  | OverflowError string
  | IndexError string
  | VapourSynthError string

subsection \<open>The filter graph\<close>

text \<open>
  \<open>ScaleValue v i o\<close> is the call \<^verbatim>\<open>scale_value(v, i, o)\<close> of vsutil (input depth
  \<open>i\<close>, output depth \<open>o\<close>); \<open>Unscaled v\<close> is a threshold passed on as it was given.
\<close>

datatype threshold = Unscaled pynum | ScaleValue pynum nat nat

text \<open>\<^verbatim>\<open>partial(core.bilateral.Gaussian, sigma=sigma)\<close>.\<close>

datatype clip_function = GaussianPartial pynum

datatype node =
    Src video_node
  | Plane node nat
  | KNLMeansCL node kwargs
  | TNLMeans node kwargs
  | DFTTest node kwargs
  | SMDegrain node kwargs
  | BM3D (bm3d_input: node) (bm3d_sigma: pynum) (bm3d_psample: int) (bm3d_radius1: int)
      (bm3d_ref: node)
  | ShufflePlanes (clips: "node list") (planes_arg: "nat list") (colorfamily: color_family)
  | QuickResample node clip_function
  | GetY node
  | Depth node nat
  | Rangemask node int int
  | Prewitt node
  | Binarize node threshold
  | Expr "node list" string
  | PickRemovegrain node node int

text \<open>
  \<^item> \<open>Plane c n\<close>: plane \<open>n\<close> of \<open>c\<close>, as \<^verbatim>\<open>vsutil.split\<close> extracts it;
  \<^item> \<open>KNLMeansCL p kw\<close>, \<open>TNLMeans p kw\<close>, \<open>DFTTest p kw\<close>: the plugin applied to \<open>p\<close>
    with the keyword arguments \<open>kw\<close>; \<open>SMDegrain p kw\<close>: \<^verbatim>\<open>haf.SMDegrain(p, **kw)\<close>;
  \<^item> \<open>BM3D\<close>: \<^verbatim>\<open>mvf.BM3D(input, sigma=, psample=, radius1=, ref=)\<close>;
  \<^item> \<open>ShufflePlanes\<close>: \<^verbatim>\<open>core.std.ShufflePlanes(clips, planes, colorfamily)\<close>, whose
    output has the colour family \<open>colorfamily\<close>;
  \<^item> \<open>QuickResample c g\<close>: \<^verbatim>\<open>util.quick_resample(c, g)\<close>; \<open>PickRemovegrain m c k\<close>:
    \<^verbatim>\<open>util.pick_removegrain(m)(c, k)\<close>. The module \<^verbatim>\<open>lvsfunc/util.py\<close> is not among
    the sources, so both calls stay uninterpreted;
  \<^item> \<open>GetY c\<close>: plane 0 of a clip of several planes, as \<^verbatim>\<open>vsutil.get_y\<close> extracts
    it; \<open>Depth c n\<close>: the conversion of \<open>c\<close> to \<open>n\<close> bits that \<^verbatim>\<open>vsutil.depth\<close>
    asks of the resizer; \<open>Rangemask\<close>: \<^verbatim>\<open>debandshit.rangemask(c, rad=, radc=)\<close>;
    \<open>Prewitt\<close>, \<open>Binarize\<close>, \<open>Expr\<close>: the filters of \<^verbatim>\<open>core.std\<close>.
  The exceptions in the model are those that the source raises itself, those that Python
  raises while it evaluates the source, and in \<^verbatim>\<open>detail_mask\<close> those of vsutil and of
  the filters that refuse a format. The chroma and luma denoisers of
  \<^verbatim>\<open>quick_denoise\<close> and the blur of \<^verbatim>\<open>detail_mask\<close> are taken to return.
\<close>

subsection \<open>The environment\<close>

text \<open>Which optional modules the \<^verbatim>\<open>import\<close> statements inside the functions find.\<close>

record env =
  mvsfunc_available :: bool
  havsfunc_available :: bool
  debandshit_available :: bool

section \<open>Python primitives used by the source\<close>

text \<open>
  \<^verbatim>\<open>str.lower\<close> on code points below 256: the ASCII capitals and the Latin-1 capitals
  (\<open>0xC0\<close> to \<open>0xDE\<close>, without the multiplication sign \<open>0xD7\<close>) move up by 32.
  Code points from 256 on are outside the model; of these only the Kelvin sign
  (\<open>0x212A\<close>) lowers to an ASCII letter.
\<close>

definition lower_char :: "char \<Rightarrow> char" where
  "lower_char c =
     (let n = (of_char c :: nat)
      in if (65 \<le> n \<and> n \<le> 90) \<or> (192 \<le> n \<and> n \<le> 222 \<and> n \<noteq> 215)
         then char_of (n + 32) else c)"

definition lower :: "string \<Rightarrow> string" where
  "lower s = map lower_char s"

text \<open>A text between single quotes, and between double quotes, for the messages.\<close>

definition sq :: "string \<Rightarrow> string" where
  "sq s = [CHR 0x27] @ s @ [CHR 0x27]"

definition dq :: "string \<Rightarrow> string" where
  "dq s = [CHR 0x22] @ s @ [CHR 0x22]"

text \<open>\<^verbatim>\<open>cmode.lower()\<close>: an \<^verbatim>\<open>int\<close> has no attribute \<^verbatim>\<open>lower\<close>.\<close>

definition no_lower_msg :: string where
  "no_lower_msg = sq ''int'' @ '' object has no attribute '' @ sq ''lower''"

definition py_lower :: "cmode_arg \<Rightarrow> error + cmode_arg" where
  "py_lower c = (case c of
       CStr s \<Rightarrow> Inr (CStr (lower s))
     | CInt i \<Rightarrow> Inl (AttributeError no_lower_msg))"

text \<open>Sequencing of computations that may raise.\<close>

definition and_then :: "error + 'a \<Rightarrow> ('a \<Rightarrow> error + 'b) \<Rightarrow> error + 'b" where
  "and_then r f = (case r of Inl e \<Rightarrow> Inl e | Inr x \<Rightarrow> f x)"

text \<open>
  A call \<^verbatim>\<open>f(k1=v1, ..., **kwargs)\<close>: Python raises \<^verbatim>\<open>TypeError\<close> when a key of
  \<^verbatim>\<open>kwargs\<close> repeats a keyword written in the call (the error names the first such
  key); otherwise the callee receives the written keywords followed by those of
  \<^verbatim>\<open>kwargs\<close>.
\<close>

definition call_kwargs :: "kwargs \<Rightarrow> kwargs \<Rightarrow> error + kwargs" where
  "call_kwargs written kw =
     (case find (\<lambda>(k, v). k \<in> fst ` set written) kw of
        Some (k, v) \<Rightarrow> Inl (TypeError_multiple_values k)
      | None \<Rightarrow> Inr (written @ kw))"

text \<open>
  \<^verbatim>\<open>xs[i]\<close> for \<open>i \<ge> 0\<close>, and \<^verbatim>\<open>planes[i] = f(planes[i])\<close>: reading
  \<^verbatim>\<open>planes[i]\<close> out of range raises \<^verbatim>\<open>IndexError\<close> before \<open>f\<close> is evaluated.
\<close>

definition py_index :: "'a list \<Rightarrow> nat \<Rightarrow> error + 'a" where
  "py_index xs i = (if i < length xs then Inr (xs ! i) else Inl (IndexError ''list index out of range''))"

definition set_plane :: "nat \<Rightarrow> (node \<Rightarrow> error + node) \<Rightarrow> node list \<Rightarrow> error + node list" where
  "set_plane i f planes =
     and_then (py_index planes i) (\<lambda>p. and_then (f p) (\<lambda>p'. Inr (planes[i := p'])))"

subsection \<open>\<^verbatim>\<open>int(sbsize * 0.75)\<close>\<close>

text \<open>
  For an \<^verbatim>\<open>int\<close> \<^verbatim>\<open>sbsize\<close> Python converts it to a double, multiplies by the double
  \<open>0.75\<close> and truncates the product towards zero. A double has 53 significant bits
  and rounds to nearest, ties to even.
\<close>

fun bitlen :: "nat \<Rightarrow> nat" where
  "bitlen n = (if n = 0 then 0 else Suc (bitlen (n div 2)))"

declare bitlen.simps [simp del]

text \<open>An integer rounded to 53 significant bits.\<close>

definition round53 :: "int \<Rightarrow> int" where
  "round53 n =
     (let a = nat \<bar>n\<bar> in
      if bitlen a \<le> 53 then n
      else let k = bitlen a - 53;
               q = a div 2 ^ k;
               r = a mod 2 ^ k;
               h = 2 ^ (k - 1);
               q' = (if h < r \<or> (r = h \<and> odd q) then q + 1 else q)
           in sgn n * int (q' * 2 ^ k))"

text \<open>
  \<^verbatim>\<open>float(n)\<close> for an \<^verbatim>\<open>int\<close>: the double, given by its value (an integer), or
  \<^verbatim>\<open>OverflowError\<close> when the rounded value does not fit a double.
\<close>

definition float_of_int :: "int \<Rightarrow> error + int" where
  "float_of_int n =
     (if \<bar>round53 n\<bar> < 2 ^ 1024 then Inr (round53 n)
      else Inl (OverflowError ''int too large to convert to float''))"

text \<open>
  \<^verbatim>\<open>x * 0.75\<close> for a double \<open>x\<close> with the integer value \<open>m\<close>: the exact product
  \<open>3 m / 4\<close> rounded to 53 significant bits; dividing by 4 only changes the exponent.
\<close>

definition times_075 :: "int \<Rightarrow> rat" where
  "times_075 m = of_int (round53 (3 * m)) / 4"

text \<open>\<^verbatim>\<open>int(x)\<close> for a finite float: truncation towards zero.\<close>

definition py_int :: "rat \<Rightarrow> int" where
  "py_int x = (if 0 \<le> x then \<lfloor>x\<rfloor> else \<lceil>x\<rceil>)"

text \<open>
  \<^verbatim>\<open>int(sbsize * 0.75)\<close>; a \<^verbatim>\<open>str\<close> cannot be multiplied by a float.
\<close>

definition sosize_of :: "kwval \<Rightarrow> error + int" where
  "sosize_of sbsize = (case sbsize of
       KInt s \<Rightarrow> and_then (float_of_int s) (\<lambda>m. Inr (py_int (times_075 m)))
     | KStr s \<Rightarrow> Inl (TypeError (''can't multiply sequence by non-int of type '' @ sq ''float'')))"

section \<open>vsutil: \<^verbatim>\<open>split\<close>, \<^verbatim>\<open>join\<close>, \<^verbatim>\<open>get_depth\<close>\<close>

text \<open>
  The helpers that the source imports from vsutil, as vsutil documents them:
  \<^verbatim>\<open>split(clip)\<close> is the list of the planes of \<open>clip\<close>, one per plane of its format;
  \<^verbatim>\<open>join(planes, family=vs.YUV)\<close> is
  \<^verbatim>\<open>core.std.ShufflePlanes(planes, [0, 0, 0], family)\<close>, and the source calls it with
  the planes alone; \<^verbatim>\<open>get_depth(clip)\<close> is \<^verbatim>\<open>clip.format.bits_per_sample\<close>.
\<close>

definition split :: "video_node \<Rightarrow> video_format \<Rightarrow> node list" where
  "split clip f = map (Plane (Src clip)) [0..<num_planes f]"

definition join :: "node list \<Rightarrow> node" where
  "join planes = ShufflePlanes planes [0, 0, 0] YUV"

definition get_depth :: "video_format \<Rightarrow> nat" where
  "get_depth f = bits_per_sample f"

section \<open>\<^verbatim>\<open>quick_denoise\<close>\<close>

subsection \<open>The messages of the exceptions the source raises\<close>

definition mvsfunc_msg :: string where
  "mvsfunc_msg = ''quick_denoise: missing dependency '' @ sq ''mvsfunc''"

definition format_msg :: string where
  "format_msg = ''quick_denoise: input clip must be vs.YUV, vs.YCOCG, or vs.RGB''"

definition sbsize_msg :: string where
  "sbsize_msg = ''quick_denoise: '' @ sq (dq ''sbsize'' @ '' not specified'')"

definition havsfunc_msg :: string where
  "havsfunc_msg = ''quick_denoise: missing dependency '' @ sq ''havsfunc''"

definition unknown_cmode_msg :: string where
  "unknown_cmode_msg = ''quick_denoise: '' @ sq ''Unknown cmode''"

text \<open>
  The specification names the failures by kind; the source raises \<^verbatim>\<open>ValueError\<close> and
  \<^verbatim>\<open>ModuleNotFoundError\<close> and tells the kinds apart by the message.
\<close>

definition DependencyMissingError :: "string \<Rightarrow> string \<Rightarrow> error" where
  "DependencyMissingError fn m = ModuleNotFoundError (fn @ '': missing dependency '' @ sq m)"

definition FormatError :: error where
  "FormatError = ValueError format_msg"

definition MissingParameterError :: error where
  "MissingParameterError = ValueError sbsize_msg"

definition UnknownModeError :: error where
  "UnknownModeError = ValueError unknown_cmode_msg"

subsection \<open>The chroma filters (lines 69 to 91)\<close>

text \<open>\<^verbatim>\<open>p.knlm.KNLMeansCL(d=3, a=2, **kwargs)\<close>.\<close>

definition knlm :: "kwargs \<Rightarrow> node \<Rightarrow> error + node" where
  "knlm kw p = and_then (call_kwargs [(''d'', KInt 3), (''a'', KInt 2)] kw) (\<lambda>args. Inr (KNLMeansCL p args))"

text \<open>\<^verbatim>\<open>p.tnlm.TNLMeans(ax=2, ay=2, az=2, **kwargs)\<close>.\<close>

definition tnlm :: "kwargs \<Rightarrow> node \<Rightarrow> error + node" where
  "tnlm kw p =
     and_then (call_kwargs [(''ax'', KInt 2), (''ay'', KInt 2), (''az'', KInt 2)] kw)
       (\<lambda>args. Inr (TNLMeans p args))"

text \<open>\<^verbatim>\<open>p.dfttest.DFTTest(sosize=int(sbsize * 0.75), **kwargs)\<close>.\<close>

definition dfttest :: "kwval \<Rightarrow> kwargs \<Rightarrow> node \<Rightarrow> error + node" where
  "dfttest sbsize kw p =
     and_then (sosize_of sbsize) (\<lambda>sosize.
     and_then (call_kwargs [(''sosize'', KInt sosize)] kw) (\<lambda>args. Inr (DFTTest p args)))"

text \<open>\<^verbatim>\<open>haf.SMDegrain(p, prefilter=3, **kwargs)\<close>.\<close>

definition smdegrain :: "kwargs \<Rightarrow> node \<Rightarrow> error + node" where
  "smdegrain kw p = and_then (call_kwargs [(''prefilter'', KInt 3)] kw) (\<lambda>args. Inr (SMDegrain p args))"

text \<open>
  The \<^verbatim>\<open>if\<close>/\<^verbatim>\<open>elif\<close> chain over \<^verbatim>\<open>cmode\<close>, with the lists of the source. In the
  third branch a missing key \<^verbatim>\<open>sbsize\<close> is the \<^verbatim>\<open>KeyError\<close> that the source turns
  into a \<^verbatim>\<open>ValueError\<close>; in the fourth the import of havsfunc comes first.
\<close>

definition chroma :: "env \<Rightarrow> cmode_arg \<Rightarrow> kwargs \<Rightarrow> node list \<Rightarrow> error + node list" where
  "chroma e cmode kw planes =
     (if cmode \<in> set [CInt 1, CStr ''knlm'', CStr ''knlmeanscl''] then
        and_then (set_plane 1 (knlm kw) planes) (set_plane 2 (knlm kw))
      else if cmode \<in> set [CInt 2, CStr ''tnlm'', CStr ''tnlmeans''] then
        and_then (set_plane 1 (tnlm kw) planes) (set_plane 2 (tnlm kw))
      else if cmode \<in> set [CInt 3, CStr ''dft'', CStr ''dfttest''] then
        (case map_of kw ''sbsize'' of
           None \<Rightarrow> Inl (ValueError sbsize_msg)
         | Some sbsize \<Rightarrow>
             and_then (set_plane 1 (dfttest sbsize kw) planes) (set_plane 2 (dfttest sbsize kw)))
      else if cmode \<in> set [CInt 4, CStr ''smd'', CStr ''smdegrain''] then
        (if havsfunc_available e
         then and_then (set_plane 1 (smdegrain kw) planes) (set_plane 2 (smdegrain kw))
         else Inl (ModuleNotFoundError havsfunc_msg))
      else Inl (ValueError unknown_cmode_msg))"

subsection \<open>The luma plane and the result (lines 93 to 95)\<close>

text \<open>
  \<^verbatim>\<open>ref = ref or planes[0]\<close>, then \<^verbatim>\<open>planes[0] = mvf.BM3D(planes[0], sigma=sigma,
  psample=0, radius1=1, ref=ref)\<close> and \<^verbatim>\<open>join(planes)\<close>. A \<^verbatim>\<open>VideoNode\<close> is truthy,
  so \<^verbatim>\<open>ref\<close> is replaced exactly when it is \<^verbatim>\<open>None\<close>.
\<close>

definition luma :: "video_node option \<Rightarrow> pynum \<Rightarrow> node list \<Rightarrow> error + node list" where
  "luma ref sigma planes =
     and_then (py_index planes 0) (\<lambda>p0.
       set_plane 0 (\<lambda>p. Inr (BM3D p sigma 0 1 (case ref of None \<Rightarrow> p0 | Some r \<Rightarrow> Src r))) planes)"

subsection \<open>The function\<close>

definition quick_denoise ::
  "env \<Rightarrow> video_node \<Rightarrow> video_node option \<Rightarrow> cmode_arg \<Rightarrow> pynum \<Rightarrow> kwargs \<Rightarrow> error + node" where
  "quick_denoise e clip ref cmode sigma kw =
     (if mvsfunc_available e then
        (case format clip of
           None \<Rightarrow> Inl (ValueError format_msg)
         | Some f \<Rightarrow>
             if color_family f \<in> set [YUV, YCOCG, RGB] then
               and_then (py_lower cmode) (\<lambda>cmode'.
               and_then (chroma e cmode' kw (split clip f)) (\<lambda>planes.
               and_then (luma ref sigma planes) (\<lambda>planes'. Inr (join planes'))))
             else Inl (ValueError format_msg))
      else Inl (ModuleNotFoundError mvsfunc_msg))"

text \<open>
  The clips that pass the check of line 63: the format is determined and its colour
  family is YUV, YCOCG or RGB.
\<close>

definition accepted :: "video_node \<Rightarrow> bool" where
  "accepted clip = (case format clip of
       None \<Rightarrow> False
     | Some f \<Rightarrow> color_family f \<in> set [YUV, YCOCG, RGB])"

section \<open>\<^verbatim>\<open>detail_mask\<close>\<close>

definition debandshit_msg :: string where
  "debandshit_msg = ''detail_mask: missing dependency '' @ sq ''debandshit''"

definition variable_format_msg :: string where
  "variable_format_msg = ''detail_mask: '' @ sq ''Variable-format clips not supported''"

subsection \<open>Threshold scaling (lines 149 to 158)\<close>

text \<open>
  The source treats \<^verbatim>\<open>brz_a\<close> and \<^verbatim>\<open>brz_b\<close> alike; \<open>scale_brz f brz\<close> is what
  either becomes for a clip of format \<open>f\<close>:
  \<^verbatim>\<open>
  if get_depth(clip) != 32:
      if isinstance(brz, float): brz = scale_value(brz, 32, get_depth(clip))
  else:
      if isinstance(brz, int):   brz = scale_value(brz, get_depth(clip), 32)
  \<close>
\<close>

definition scale_brz :: "video_format \<Rightarrow> pynum \<Rightarrow> threshold" where
  "scale_brz f brz =
     (if get_depth f \<noteq> 32 then
        (case brz of
           PFloat x \<Rightarrow> ScaleValue brz 32 (get_depth f)
         | PInt i \<Rightarrow> Unscaled brz)
      else
        (case brz of
           PInt i \<Rightarrow> ScaleValue brz (get_depth f) 32
         | PFloat x \<Rightarrow> Unscaled brz))"

subsection \<open>The two working copies (lines 161 to 164)\<close>

text \<open>
  \<^verbatim>\<open>if sigma\<close>: \<^verbatim>\<open>None\<close> and zero are falsy, every other number is truthy.
\<close>

definition truthy :: "pynum \<Rightarrow> bool" where
  "truthy v = (case v of PInt i \<Rightarrow> i \<noteq> 0 | PFloat x \<Rightarrow> x \<noteq> 0)"

definition den_a :: "video_node \<Rightarrow> pynum option \<Rightarrow> node" where
  "den_a clip sigma = (case sigma of
       None \<Rightarrow> Src clip
     | Some s \<Rightarrow> if truthy s then QuickResample (Src clip) (GaussianPartial s) else Src clip)"

definition den_b :: "video_node \<Rightarrow> pynum option \<Rightarrow> node" where
  "den_b clip sigma = (case sigma of
       None \<Rightarrow> Src clip
     | Some s \<Rightarrow> if truthy s then QuickResample (Src clip) (GaussianPartial s) else Src clip)"

subsection \<open>Sample formats, and what vsutil and the filters do with them\<close>

text \<open>
  The bits per sample and the sample type of a clip. \<^verbatim>\<open>vsutil.depth(c, n)\<close> without a
  sample type aims at float samples for \<open>n = 32\<close> and at integer samples otherwise; it
  returns \<open>c\<close> itself when \<open>c\<close> already has that sample format, and a converted clip
  otherwise.
\<close>

type_synonym sample_format = "nat \<times> sample_type"

definition sample_format :: "video_format \<Rightarrow> sample_format" where
  "sample_format f = (bits_per_sample f, sample_type f)"

definition depth_format :: "nat \<Rightarrow> sample_format" where
  "depth_format n = (n, if n = 32 then FLOAT else INTEGER)"

definition depth :: "sample_format \<Rightarrow> node \<Rightarrow> nat \<Rightarrow> node" where
  "depth cur c n = (if cur = depth_format n then c else Depth c n)"

text \<open>
  \<^verbatim>\<open>vsutil.get_y\<close> raises \<^verbatim>\<open>ValueError\<close> for a clip whose colour family is not YUV,
  YCOCG or GRAY; of a GRAY clip, which has one plane, it returns the clip itself.
\<close>

definition luma_msg :: string where
  "luma_msg = ''The clip must have a luma plane.''"

definition get_y :: "color_family \<Rightarrow> node \<Rightarrow> error + node" where
  "get_y family c =
     (if family \<in> set [YUV, YCOCG, GRAY]
      then (if family = GRAY then Inr c else Inr (GetY c))
      else Inl (ValueError luma_msg))"

text \<open>
  \<^verbatim>\<open>std.Prewitt\<close> and \<^verbatim>\<open>std.Binarize\<close> accept integer samples of 8 to 16 bits and
  float samples of 32 bits, and raise for every other sample format;
  \<^verbatim>\<open>rangemask\<close> is built from filters of \<^verbatim>\<open>core.std\<close> with the same rule and returns
  a clip of the sample format of its input.
\<close>

definition std_supported :: "sample_format \<Rightarrow> bool" where
  "std_supported sf = (case sf of
       (n, INTEGER) \<Rightarrow> 8 \<le> n \<and> n \<le> 16
     | (n, FLOAT) \<Rightarrow> n = 32)"

definition rangemask :: "sample_format \<Rightarrow> node \<Rightarrow> int \<Rightarrow> int \<Rightarrow> error + node" where
  "rangemask sf c rad radc =
     (if std_supported sf then Inr (Rangemask c rad radc) else Inl (VapourSynthError ''rangemask''))"

definition prewitt :: "sample_format \<Rightarrow> node \<Rightarrow> error + node" where
  "prewitt sf c = (if std_supported sf then Inr (Prewitt c) else Inl (VapourSynthError ''Prewitt''))"

definition binarize :: "sample_format \<Rightarrow> node \<Rightarrow> threshold \<Rightarrow> error + node" where
  "binarize sf c brz =
     (if std_supported sf then Inr (Binarize c brz) else Inl (VapourSynthError ''Binarize''))"

text \<open>
  Modelled from the spec: \<^verbatim>\<open>util.quick_resample\<close> is not among the sources. The spec
  has it blur the frame before detection; the model takes the blurred copy to keep the
  colour family of the clip and to come back at the bit depth of the clip as
  \<^verbatim>\<open>vsutil.depth\<close> returns it. \<open>den_format f sigma\<close> is the sample format of the
  working copies \<open>den_a\<close> and \<open>den_b\<close>.
\<close>

definition den_format :: "video_format \<Rightarrow> pynum option \<Rightarrow> sample_format" where
  "den_format f sigma = (case sigma of
       None \<Rightarrow> sample_format f
     | Some s \<Rightarrow> if truthy s then depth_format (bits_per_sample f) else sample_format f)"

subsection \<open>The detectors and the merge (lines 166 to 176)\<close>

text \<open>
  \<open>mask_a\<close> is lines 166 to 169, for the working copy \<open>den\<close> of sample format \<open>dsf\<close>:
  \<^verbatim>\<open>
  mask_a = depth(get_y(den_a), 16) if clip.format.bits_per_sample < 32 else get_y(den_a)
  mask_a = rangemask(mask_a, rad=rad, radc=radc)
  mask_a = depth(mask_a, clip.format.bits_per_sample)
  mask_a = core.std.Binarize(mask_a, brz_a)
  \<close>
  \<open>mask_b\<close> is lines 171 and 172, \<open>merge\<close> line 174. When line 174 is reached both
  masks have passed \<^verbatim>\<open>std.Binarize\<close> and have the same sample format.
\<close>

definition mask_a ::
  "video_format \<Rightarrow> sample_format \<Rightarrow> node \<Rightarrow> int \<Rightarrow> int \<Rightarrow> threshold \<Rightarrow> error + node" where
  "mask_a f dsf den rad radc brz =
     and_then (get_y (color_family f) den) (\<lambda>y.
       let m = (if bits_per_sample f < 32 then depth dsf y 16 else y);
           msf = (if bits_per_sample f < 32 then depth_format 16 else dsf)
       in and_then (rangemask msf m rad radc) (\<lambda>m'.
            binarize (depth_format (bits_per_sample f)) (depth msf m' (bits_per_sample f)) brz))"

definition mask_b :: "video_format \<Rightarrow> sample_format \<Rightarrow> node \<Rightarrow> threshold \<Rightarrow> error + node" where
  "mask_b f dsf den brz =
     and_then (get_y (color_family f) den) (\<lambda>y.
     and_then (prewitt dsf y) (\<lambda>edges. binarize dsf edges brz))"

definition merge :: "node \<Rightarrow> node \<Rightarrow> node" where
  "merge a b = Expr [a, b] ''x y max''"

subsection \<open>The function\<close>

definition detail_mask ::
  "env \<Rightarrow> video_node \<Rightarrow> pynum option \<Rightarrow> int \<Rightarrow> int \<Rightarrow> pynum \<Rightarrow> pynum \<Rightarrow> error + node" where
  "detail_mask e clip sigma rad radc brz_a brz_b =
     (if debandshit_available e then
        (case format clip of
           None \<Rightarrow> Inl (ValueError variable_format_msg)
         | Some f \<Rightarrow>
             and_then (mask_a f (den_format f sigma) (den_a clip sigma) rad radc (scale_brz f brz_a))
               (\<lambda>a.
             and_then (mask_b f (den_format f sigma) (den_b clip sigma) (scale_brz f brz_b))
               (\<lambda>b.
                 let mask = merge a b;
                     mask' = PickRemovegrain mask mask 22
                 in Inr (PickRemovegrain mask' mask' 11))))
      else Inl (ModuleNotFoundError debandshit_msg))"

text \<open>
  The clips that \<^verbatim>\<open>detail_mask\<close> can process: the colour family has a luma plane and
  the sample format is one that the filters of \<^verbatim>\<open>core.std\<close> accept.
\<close>

definition validly_formatted :: "video_format \<Rightarrow> bool" where
  "validly_formatted f =
     (color_family f \<in> set [YUV, YCOCG, GRAY] \<and> std_supported (sample_format f))"

section \<open>\<^verbatim>\<open>core.std.Expr\<close>: the value of a pixel\<close>

text \<open>
  \<^verbatim>\<open>std.Expr\<close> evaluates an expression in reverse Polish notation at every pixel: the
  tokens are separated by spaces; \<^verbatim>\<open>x\<close>, \<^verbatim>\<open>y\<close> and \<^verbatim>\<open>z\<close> load the pixel of the
  first, second and third input clip; an operator replaces the two topmost values of the
  stack by its result; at the end the stack holds exactly the value of the pixel (which
  an integer format then rounds and clamps to its range; a maximum of two pixels of the
  format is in range already). Of the operators only \<^verbatim>\<open>max\<close> and \<^verbatim>\<open>min\<close> are needed here; any other token, a load of
  a clip that is not there, and an unbalanced stack are errors (\<open>None\<close>).
\<close>

fun tokens_from :: "string \<Rightarrow> string \<Rightarrow> string list" where
  "tokens_from cur [] = (if cur = [] then [] else [cur])"
| "tokens_from cur (c # cs) =
     (if c = CHR '' '' then (if cur = [] then tokens_from [] cs else cur # tokens_from [] cs)
      else tokens_from (cur @ [c]) cs)"

definition tokens :: "string \<Rightarrow> string list" where
  "tokens e = tokens_from [] e"

definition load :: "'a list \<Rightarrow> nat \<Rightarrow> 'a option" where
  "load vals i = (if i < length vals then Some (vals ! i) else None)"

fun rpn :: "string list \<Rightarrow> 'a::linorder list \<Rightarrow> 'a list \<Rightarrow> 'a list option" where
  "rpn [] vals stack = Some stack"
| "rpn (t # ts) vals stack =
     (if t = ''x'' then (case load vals 0 of None \<Rightarrow> None | Some v \<Rightarrow> rpn ts vals (v # stack))
      else if t = ''y'' then (case load vals 1 of None \<Rightarrow> None | Some v \<Rightarrow> rpn ts vals (v # stack))
      else if t = ''z'' then (case load vals 2 of None \<Rightarrow> None | Some v \<Rightarrow> rpn ts vals (v # stack))
      else if t = ''max'' then
        (case stack of b # a # rest \<Rightarrow> rpn ts vals (max a b # rest) | _ \<Rightarrow> None)
      else if t = ''min'' then
        (case stack of b # a # rest \<Rightarrow> rpn ts vals (min a b # rest) | _ \<Rightarrow> None)
      else None)"

definition eval_expr :: "string \<Rightarrow> 'a::linorder list \<Rightarrow> 'a option" where
  "eval_expr e vals = (case rpn (tokens e) vals [] of Some [v] \<Rightarrow> Some v | _ \<Rightarrow> None)"

text \<open>
  The pixel at \<open>p\<close> of an \<open>Expr\<close> node, where \<open>px c p\<close> is the pixel at \<open>p\<close> of the
  input clip \<open>c\<close>.
\<close>

fun expr_pixel :: "(node \<Rightarrow> 'p \<Rightarrow> 'a::linorder) \<Rightarrow> node \<Rightarrow> 'p \<Rightarrow> 'a option" where
  "expr_pixel px (Expr cs e) p = eval_expr e (map (\<lambda>c. px c p) cs)"
| "expr_pixel px _ p = None"

section \<open>Formats and inputs used in the examples\<close>

text \<open>
  The presets \<^verbatim>\<open>vs.YUV420P8\<close>, \<^verbatim>\<open>vs.RGB24\<close>, \<^verbatim>\<open>vs.GRAY8\<close>, \<^verbatim>\<open>vs.GRAYS\<close>,
  \<^verbatim>\<open>vs.YUV444PH\<close> and \<^verbatim>\<open>vs.YUV420P16\<close>.
\<close>

definition YUV420P8 :: video_format where
  "YUV420P8 = \<lparr>color_family = YUV, sample_type = INTEGER, bits_per_sample = 8,
     subsampling_w = 1, subsampling_h = 1\<rparr>"

definition RGB24 :: video_format where
  "RGB24 = \<lparr>color_family = RGB, sample_type = INTEGER, bits_per_sample = 8,
     subsampling_w = 0, subsampling_h = 0\<rparr>"

definition GRAY8 :: video_format where
  "GRAY8 = \<lparr>color_family = GRAY, sample_type = INTEGER, bits_per_sample = 8,
     subsampling_w = 0, subsampling_h = 0\<rparr>"

definition GRAYS :: video_format where
  "GRAYS = \<lparr>color_family = GRAY, sample_type = FLOAT, bits_per_sample = 32,
     subsampling_w = 0, subsampling_h = 0\<rparr>"

definition YUV444PH :: video_format where
  "YUV444PH = \<lparr>color_family = YUV, sample_type = FLOAT, bits_per_sample = 16,
     subsampling_w = 0, subsampling_h = 0\<rparr>"

definition YUV420P16 :: video_format where
  "YUV420P16 = \<lparr>color_family = YUV, sample_type = INTEGER, bits_per_sample = 16,
     subsampling_w = 1, subsampling_h = 1\<rparr>"

definition clip_of :: "video_format \<Rightarrow> video_node" where
  "clip_of f = \<lparr>format = Some f, clip_id = 0\<rparr>"

definition all_installed :: env where
  "all_installed = \<lparr>mvsfunc_available = True, havsfunc_available = True,
     debandshit_available = True\<rparr>"

definition no_mvsfunc :: env where
  "no_mvsfunc = \<lparr>mvsfunc_available = False, havsfunc_available = True,
     debandshit_available = True\<rparr>"

section \<open>Basic facts\<close>

lemma and_then_Inl [simp]: "and_then (Inl e) f = Inl e"
  by (simp add: and_then_def)

lemma and_then_Inr [simp]: "and_then (Inr x) f = f x"
  by (simp add: and_then_def)

lemma tokens_merge: "tokens ''x y max'' = [''x'', ''y'', ''max'']"
  by (simp add: tokens_def)

lemma den_a_zero: "den_a clip (Some (PFloat 0)) = den_a clip None"
  by (simp add: den_a_def truthy_def)

lemma den_b_zero: "den_b clip (Some (PFloat 0)) = den_b clip None"
  by (simp add: den_b_def truthy_def)

lemma den_format_zero: "den_format f (Some (PFloat 0)) = den_format f None"
  by (simp add: den_format_def truthy_def)

section \<open>The order of the checks of \<^verbatim>\<open>quick_denoise\<close>\<close>

text \<open>
  C9. Every call of \<^verbatim>\<open>quick_denoise\<close> first needs mvsfunc: when the module is not
  available the call fails with the missing-dependency error, whatever the clip (also one
  of a colour family that would be rejected), the mode and the other arguments are. The
  result does not depend on them, so neither the check of the colour family nor the
  dispatch has run.
\<close>

theorem quick_denoise_needs_mvsfunc:
  "\<not> mvsfunc_available e \<Longrightarrow>
   quick_denoise e clip ref cmode sigma kw =
     Inl (DependencyMissingError ''quick_denoise'' ''mvsfunc'')"
  by (simp add: quick_denoise_def DependencyMissingError_def mvsfunc_msg_def)

theorem quick_denoise_needs_mvsfunc_witness:
  "\<not> mvsfunc_available no_mvsfunc \<and>
   quick_denoise no_mvsfunc (clip_of GRAY8) None (CStr ''tnlm'') (PInt 2) [] =
     Inl (DependencyMissingError ''quick_denoise'' ''mvsfunc'')"
proof -
  have h: "\<not> mvsfunc_available no_mvsfunc"
    by (simp add: no_mvsfunc_def)
  show ?thesis
    using h quick_denoise_needs_mvsfunc [OF h, of "clip_of GRAY8" None "CStr ''tnlm''" "PInt 2" "[]"]
    by simp
qed

text \<open>
  C8, as the source has it. The claim says that every clip outside YUV, YCOCG and RGB
  (or of undetermined format) is rejected with the format error. Without mvsfunc the call
  fails earlier, with the missing-dependency error: the claim fails for a GRAY8 clip in
  an environment that lacks mvsfunc.
\<close>

theorem quick_denoise_format_counterexample:
  "\<not> accepted (clip_of GRAY8) \<and>
   quick_denoise no_mvsfunc (clip_of GRAY8) None (CStr ''knlm'') (PInt 2) [] =
     Inl (DependencyMissingError ''quick_denoise'' ''mvsfunc'') \<and>
   quick_denoise no_mvsfunc (clip_of GRAY8) None (CStr ''knlm'') (PInt 2) [] \<noteq> Inl FormatError"
  by (simp add: quick_denoise_def no_mvsfunc_def accepted_def clip_of_def GRAY8_def
      DependencyMissingError_def mvsfunc_msg_def FormatError_def)

text \<open>
  C8, amended. When mvsfunc is available, \<^verbatim>\<open>quick_denoise\<close> rejects every clip whose
  format is undetermined or whose colour family is not YUV, YCOCG or RGB with the format
  error, whatever the mode, the reference, the strength and the keyword arguments are: no
  plane has been split and no filter chosen.
\<close>

theorem quick_denoise_rejects_format:
  "mvsfunc_available e \<Longrightarrow> \<not> accepted clip \<Longrightarrow>
   quick_denoise e clip ref cmode sigma kw = Inl FormatError"
  by (auto simp: quick_denoise_def accepted_def FormatError_def split: option.splits)

theorem quick_denoise_rejects_format_witness:
  "mvsfunc_available all_installed \<and> \<not> accepted (clip_of GRAY8) \<and>
   quick_denoise all_installed (clip_of GRAY8) None (CStr ''knlm'') (PInt 2) [] = Inl FormatError"
proof -
  have h1: "mvsfunc_available all_installed"
    by (simp add: all_installed_def)
  have h2: "\<not> accepted (clip_of GRAY8)"
    by (simp add: accepted_def clip_of_def GRAY8_def)
  show ?thesis
    using h1 h2 quick_denoise_rejects_format [OF h1 h2, of None "CStr ''knlm''" "PInt 2" "[]"]
    by simp
qed

section \<open>The mode given as an integer\<close>

text \<open>
  C1, at the integer aliases. The dispatch lists of the source hold 1, 2, 3 and 4, but
  \<^verbatim>\<open>cmode.lower()\<close> runs before the lists are consulted, and an \<^verbatim>\<open>int\<close> has no
  such method. A call with an integer mode therefore never reaches a filter: once mvsfunc
  is found and the clip accepted it fails with \<^verbatim>\<open>AttributeError\<close>, for the aliases 1
  to 4 as for any other integer, and never with the unknown-mode error.
\<close>

theorem quick_denoise_int_cmode:
  "quick_denoise e clip ref (CInt i) sigma kw =
     (if mvsfunc_available e then
        (if accepted clip then Inl (AttributeError no_lower_msg) else Inl FormatError)
      else Inl (DependencyMissingError ''quick_denoise'' ''mvsfunc''))"
  by (simp add: quick_denoise_def accepted_def py_lower_def FormatError_def
      DependencyMissingError_def mvsfunc_msg_def split: option.splits)

section \<open>The working copies of \<^verbatim>\<open>detail_mask\<close>\<close>

text \<open>
  C4. The two working copies are computed by the same expression: for every clip and
  every \<^verbatim>\<open>sigma\<close> they are equal; both are the clip itself when \<^verbatim>\<open>sigma\<close> is omitted,
  and both are the same Gaussian blur of the clip with the same \<^verbatim>\<open>sigma\<close> when
  \<^verbatim>\<open>sigma\<close> is given and truthy.
\<close>

theorem den_a_eq_den_b:
  "den_a clip sigma = den_b clip sigma \<and>
   den_a clip None = Src clip \<and> den_b clip None = Src clip \<and>
   den_a clip (Some s) =
     (if truthy s then QuickResample (Src clip) (GaussianPartial s) else Src clip) \<and>
   den_b clip (Some s) =
     (if truthy s then QuickResample (Src clip) (GaussianPartial s) else Src clip)"
  by (simp add: den_a_def den_b_def)

text \<open>
  C10. \<^verbatim>\<open>sigma = 0.0\<close> is falsy, so it behaves as an omitted \<^verbatim>\<open>sigma\<close>: for every
  clip and all other arguments the two calls of \<^verbatim>\<open>detail_mask\<close> give the same result.
\<close>

theorem detail_mask_sigma_zero:
  "detail_mask e clip (Some (PFloat 0)) rad radc brz_a brz_b =
   detail_mask e clip None rad radc brz_a brz_b"
  unfolding detail_mask_def den_a_zero den_b_zero den_format_zero ..

section \<open>The merge of the two masks\<close>

text \<open>
  C7. The merge step is the pixelwise maximum: for all masks \<open>A\<close> and \<open>B\<close> and every
  pixel \<open>p\<close>, the pixel of \<open>merge A B\<close> at \<open>p\<close> is the larger of the pixels of \<open>A\<close> and
  \<open>B\<close> at \<open>p\<close>.
\<close>

theorem merge_pixelwise_max:
  "expr_pixel px (merge A B) p = Some (max (px A p) (px B p))"
  by (simp add: merge_def eval_expr_def tokens_merge load_def)

section \<open>The planes of an accepted clip\<close>

lemma chroma_pair:
  "and_then (set_plane 1 g [a, b, c]) (set_plane 2 g) =
     and_then (g b) (\<lambda>b'. and_then (g c) (\<lambda>c'. Inr [a, b', c']))"
  by (simp add: set_plane_def py_index_def and_then_def split: sum.splits)

lemma chroma_pair_Suc:
  "and_then (set_plane (Suc 0) g [a, b, c]) (set_plane 2 g) =
     and_then (g b) (\<lambda>b'. and_then (g c) (\<lambda>c'. Inr [a, b', c']))"
  using chroma_pair [of g a b c] by simp

lemma pair_shape:
  "and_then (set_plane 1 g [a, b, c]) (set_plane 2 g) = Inr ps \<Longrightarrow> \<exists>b' c'. ps = [a, b', c']"
  unfolding chroma_pair by (auto simp: and_then_def split: sum.splits)

lemma chroma_shape:
  assumes "chroma e cm kw [a, b, c] = Inr ps"
  shows "\<exists>b' c'. ps = [a, b', c']"
proof -
  from assms obtain g where "and_then (set_plane 1 g [a, b, c]) (set_plane 2 g) = Inr ps"
    unfolding chroma_def by (auto simp del: list.set split: if_splits option.splits)
  then show ?thesis
    by (rule pair_shape)
qed


lemma split_three:
  "color_family f \<in> set [YUV, YCOCG, RGB] \<Longrightarrow>
   split clip f = [Plane (Src clip) 0, Plane (Src clip) 1, Plane (Src clip) 2]"
proof -
  assume "color_family f \<in> set [YUV, YCOCG, RGB]"
  then have "num_planes f = 3"
    by (auto simp: num_planes_def)
  moreover have "[0..<3] = [0, 1, 2]"
    by (simp add: upt_rec)
  ultimately show ?thesis
    by (simp add: split_def)
qed

lemma luma_three:
  "luma ref sigma [a, b, c] =
     Inr [BM3D a sigma 0 1 (case ref of None \<Rightarrow> a | Some r \<Rightarrow> Src r), b, c]"
  by (simp add: luma_def set_plane_def py_index_def)

lemma quick_denoise_accepted:
  "mvsfunc_available e \<Longrightarrow> format clip = Some f \<Longrightarrow> color_family f \<in> set [YUV, YCOCG, RGB] \<Longrightarrow>
   quick_denoise e clip ref cmode sigma kw =
     and_then (py_lower cmode) (\<lambda>cm.
     and_then (chroma e cm kw [Plane (Src clip) 0, Plane (Src clip) 1, Plane (Src clip) 2]) (\<lambda>planes.
     and_then (luma ref sigma planes) (\<lambda>planes'. Inr (join planes'))))"
  by (simp add: quick_denoise_def split_three del: list.set)

lemma quick_denoise_Inr:
  "quick_denoise e clip ref cmode sigma kw = Inr r \<Longrightarrow>
   mvsfunc_available e \<and> (\<exists>f. format clip = Some f \<and> color_family f \<in> set [YUV, YCOCG, RGB])"
  by (auto simp: quick_denoise_def simp del: list.set split: if_splits option.splits)

section \<open>The result of \<^verbatim>\<open>quick_denoise\<close>\<close>

text \<open>
  C6, on the code. Every call that returns has denoised plane 0 with BM3D, with the
  strength \<^verbatim>\<open>sigma\<close>, \<^verbatim>\<open>psample = 0\<close>, \<^verbatim>\<open>radius1 = 1\<close> and the reference, which is
  plane 0 of the clip itself when \<^verbatim>\<open>ref\<close> is not given, and has joined three planes in
  the original order. The join is \<^verbatim>\<open>join(planes)\<close> without a colour family, so the
  result is a YUV clip for every accepted clip, also for an RGB or a YCOCG one: the
  colour family of the input is kept for YUV clips only.
\<close>

theorem quick_denoise_result:
  assumes "quick_denoise e clip ref cmode sigma kw = Inr r"
  shows "\<exists>p1 p2. r = ShufflePlanes
     [BM3D (Plane (Src clip) 0) sigma 0 1
        (case ref of None \<Rightarrow> Plane (Src clip) 0 | Some x \<Rightarrow> Src x), p1, p2]
     [0, 0, 0] YUV"
proof -
  from assms obtain f where f: "mvsfunc_available e" "format clip = Some f"
      "color_family f \<in> set [YUV, YCOCG, RGB]"
    using quick_denoise_Inr by blast
  from assms obtain cm ps where
    ps: "chroma e cm kw [Plane (Src clip) 0, Plane (Src clip) 1, Plane (Src clip) 2] = Inr ps" and
    res: "and_then (luma ref sigma ps) (\<lambda>planes'. Inr (join planes')) = Inr r"
    unfolding quick_denoise_accepted [OF f] by (auto simp: and_then_def split: sum.splits)
  from ps obtain p1 p2 where "ps = [Plane (Src clip) 0, p1, p2]"
    using chroma_shape by blast
  with res show ?thesis
    by (auto simp: luma_three join_def)
qed

text \<open>An RGB24 clip in the default mode: the result is tagged YUV.\<close>

lemma rgb_eval:
  "quick_denoise all_installed (clip_of RGB24) None (CStr ''knlm'') (PInt 2) [] =
   Inr (ShufflePlanes
     [BM3D (Plane (Src (clip_of RGB24)) 0) (PInt 2) 0 1 (Plane (Src (clip_of RGB24)) 0),
      KNLMeansCL (Plane (Src (clip_of RGB24)) 1) [(''d'', KInt 3), (''a'', KInt 2)],
      KNLMeansCL (Plane (Src (clip_of RGB24)) 2) [(''d'', KInt 3), (''a'', KInt 2)]]
     [0, 0, 0] YUV)"
  by code_simp

theorem quick_denoise_result_witness:
  "quick_denoise all_installed (clip_of RGB24) None (CStr ''knlm'') (PInt 2) [] =
   Inr (ShufflePlanes
     [BM3D (Plane (Src (clip_of RGB24)) 0) (PInt 2) 0 1 (Plane (Src (clip_of RGB24)) 0),
      KNLMeansCL (Plane (Src (clip_of RGB24)) 1) [(''d'', KInt 3), (''a'', KInt 2)],
      KNLMeansCL (Plane (Src (clip_of RGB24)) 2) [(''d'', KInt 3), (''a'', KInt 2)]]
     [0, 0, 0] YUV) \<and>
   format (clip_of RGB24) = Some RGB24 \<and> color_family RGB24 = RGB \<and> RGB \<noteq> YUV"
  using quick_denoise_result [OF rgb_eval] rgb_eval
  by (simp add: clip_of_def RGB24_def)


section \<open>The DFT mode\<close>

subsection \<open>\<^verbatim>\<open>int(sbsize * 0.75)\<close> for integers of up to 51 bits\<close>

lemma bitlen_le: "n < 2 ^ k \<Longrightarrow> bitlen n \<le> k"
proof (induction k arbitrary: n)
  case 0
  then show ?case by (simp add: bitlen.simps)
next
  case (Suc k)
  show ?case
  proof (cases "n = 0")
    case True
    then show ?thesis by (simp add: bitlen.simps)
  next
    case False
    from Suc.prems have "n div 2 < 2 ^ k" by simp
    then have "bitlen (n div 2) \<le> k" by (rule Suc.IH)
    with False show ?thesis by (subst bitlen.simps) simp
  qed
qed

lemma round53_small: "\<bar>n\<bar> < 2 ^ 53 \<Longrightarrow> round53 n = n"
proof -
  assume "\<bar>n\<bar> < 2 ^ 53"
  then have "nat \<bar>n\<bar> < 2 ^ 53" by simp
  then have "bitlen (nat \<bar>n\<bar>) \<le> 53" by (rule bitlen_le)
  then show ?thesis by (simp add: round53_def)
qed

lemma sosize_small:
  assumes "\<bar>S\<bar> < 2 ^ 51"
  shows "sosize_of (KInt S) = Inr (py_int (of_int S * (3 / 4)))"
proof -
  from assms have a: "round53 S = S"
    by (intro round53_small) simp
  from assms have "\<bar>3 * S\<bar> < 2 ^ 53" by simp
  then have b: "round53 (3 * S) = 3 * S"
    by (rule round53_small)
  from assms have c: "\<bar>S\<bar> < 2 ^ 1024"
    by (rule less_trans) simp
  have t: "times_075 S = of_int S * (3 / 4)"
    by (simp add: times_075_def b)
  have f: "float_of_int S = Inr S"
    using c by (simp add: float_of_int_def a)
  show ?thesis
    by (simp add: sosize_of_def f t)
qed

subsection \<open>The branch of the dispatch\<close>

lemma call_kwargs_fresh:
  "map_of kw k = None \<Longrightarrow> call_kwargs [(k, v)] kw = Inr ((k, v) # kw)"
proof -
  assume "map_of kw k = None"
  then have "k \<notin> fst ` set kw"
    by (simp add: map_of_eq_None_iff)
  then have "find (\<lambda>(k', v'). k' \<in> fst ` set [(k, v)]) kw = None"
    by (force simp: find_None_iff)
  then show ?thesis
    by (simp add: call_kwargs_def)
qed

lemma chroma_dft:
  "cm \<in> set [CStr ''dft'', CStr ''dfttest''] \<Longrightarrow>
   chroma e cm kw planes =
     (case map_of kw ''sbsize'' of
        None \<Rightarrow> Inl (ValueError sbsize_msg)
      | Some sbsize \<Rightarrow>
          and_then (set_plane 1 (dfttest sbsize kw) planes) (set_plane 2 (dfttest sbsize kw)))"
  by (auto simp: chroma_def)

lemma no_ValueError:
  "knlm kw p \<noteq> Inl (ValueError m)"
  "tnlm kw p \<noteq> Inl (ValueError m)"
  "smdegrain kw p \<noteq> Inl (ValueError m)"
  "dfttest sb kw p \<noteq> Inl (ValueError m)"
  by (auto simp: knlm_def tnlm_def smdegrain_def dfttest_def sosize_of_def float_of_int_def
      call_kwargs_def and_then_def split: option.splits sum.splits kwval.splits if_splits)

lemma pair_no_ValueError:
  "(\<And>p. g p \<noteq> Inl (ValueError m)) \<Longrightarrow>
   and_then (g b) (\<lambda>b'. and_then (g c) (\<lambda>c'. Inr [a, b', c'])) \<noteq> Inl (ValueError m)"
  by (auto simp: and_then_def split: sum.splits)

lemma msgs_differ: "format_msg \<noteq> sbsize_msg" "unknown_cmode_msg \<noteq> sbsize_msg"
  by (simp_all add: format_msg_def sbsize_msg_def unknown_cmode_msg_def sq_def dq_def)

lemma chroma_sbsize_error:
  assumes "chroma e cm kw [a, b, c] = Inl (ValueError sbsize_msg)"
  shows "cm \<in> set [CInt 3, CStr ''dft'', CStr ''dfttest''] \<and> map_of kw ''sbsize'' = None"
  using assms unfolding chroma_def chroma_pair
  by (auto simp del: list.set simp: pair_no_ValueError no_ValueError msgs_differ
      split: if_splits option.splits)


lemma quick_denoise_sbsize_error_iff:
  "(quick_denoise e clip ref cmode sigma kw = Inl (ValueError sbsize_msg)) =
   (mvsfunc_available e \<and> accepted clip \<and>
    (\<exists>s. cmode = CStr s \<and> lower s \<in> set [''dft'', ''dfttest'']) \<and>
    map_of kw ''sbsize'' = None)"
proof (cases "mvsfunc_available e \<and> accepted clip")
  case False
  then show ?thesis
    by (auto simp: quick_denoise_def accepted_def msgs_differ simp del: list.set
        split: option.splits)
next
  case True
  then obtain f where f: "mvsfunc_available e" "format clip = Some f"
      "color_family f \<in> set [YUV, YCOCG, RGB]"
    by (auto simp: accepted_def simp del: list.set split: option.splits)
  show ?thesis
  proof (cases cmode)
    case (CInt i)
    then show ?thesis
      by (simp add: quick_denoise_accepted [OF f] py_lower_def)
  next
    case (CStr s)
    let ?planes = "[Plane (Src clip) 0, Plane (Src clip) 1, Plane (Src clip) 2]"
    have q: "quick_denoise e clip ref cmode sigma kw =
        and_then (chroma e (CStr (lower s)) kw ?planes) (\<lambda>planes.
        and_then (luma ref sigma planes) (\<lambda>planes'. Inr (join planes')))"
      by (simp add: quick_denoise_accepted [OF f] py_lower_def CStr)
    show ?thesis
    proof
      assume "quick_denoise e clip ref cmode sigma kw = Inl (ValueError sbsize_msg)"
      with q have "chroma e (CStr (lower s)) kw ?planes = Inl (ValueError sbsize_msg)"
        using chroma_shape [of e "CStr (lower s)" kw]
        by (fastforce simp: and_then_def luma_three split: sum.splits)
      then have "CStr (lower s) \<in> set [CInt 3, CStr ''dft'', CStr ''dfttest''] \<and>
          map_of kw ''sbsize'' = None"
        by (rule chroma_sbsize_error)
      with True CStr show "mvsfunc_available e \<and> accepted clip \<and>
          (\<exists>s. cmode = CStr s \<and> lower s \<in> set [''dft'', ''dfttest'']) \<and>
          map_of kw ''sbsize'' = None"
        by auto
    next
      assume "mvsfunc_available e \<and> accepted clip \<and>
          (\<exists>s. cmode = CStr s \<and> lower s \<in> set [''dft'', ''dfttest'']) \<and>
          map_of kw ''sbsize'' = None"
      with CStr have "CStr (lower s) \<in> set [CStr ''dft'', CStr ''dfttest'']"
          and "map_of kw ''sbsize'' = None"
        by auto
      then show "quick_denoise e clip ref cmode sigma kw = Inl (ValueError sbsize_msg)"
        by (simp add: q chroma_dft del: list.set)
    qed
  qed
qed

lemma quick_denoise_sbsize_int:
  assumes "mvsfunc_available e" and "accepted clip"
    and "lower s \<in> set [''dft'', ''dfttest'']"
    and "map_of kw ''sbsize'' = Some (KInt S)" and "\<bar>S\<bar> < 2 ^ 51"
    and "map_of kw ''sosize'' = None"
  shows "quick_denoise e clip ref (CStr s) sigma kw =
     Inr (join
       [BM3D (Plane (Src clip) 0) sigma 0 1
          (case ref of None \<Rightarrow> Plane (Src clip) 0 | Some x \<Rightarrow> Src x),
        DFTTest (Plane (Src clip) 1) ((''sosize'', KInt (py_int (of_int S * (3 / 4)))) # kw),
        DFTTest (Plane (Src clip) 2) ((''sosize'', KInt (py_int (of_int S * (3 / 4)))) # kw)])"
proof -
  from assms(1,2) obtain f where f: "mvsfunc_available e" "format clip = Some f"
      "color_family f \<in> set [YUV, YCOCG, RGB]"
    by (auto simp: accepted_def simp del: list.set split: option.splits)
  from assms(3) have cm: "CStr (lower s) \<in> set [CStr ''dft'', CStr ''dfttest'']"
    by auto
  have d: "dfttest (KInt S) kw p =
      Inr (DFTTest p ((''sosize'', KInt (py_int (of_int S * (3 / 4)))) # kw))" for p
    by (simp add: dfttest_def sosize_small [OF assms(5)] call_kwargs_fresh [OF assms(6)])
  show ?thesis
    by (simp add: quick_denoise_accepted [OF f] py_lower_def chroma_dft [OF cm] assms(4)
        chroma_pair_Suc d luma_three del: list.set)
qed


lemma py_int_three_quarters:
  "py_int (of_int S * (3 / 4)) =
     (if 0 \<le> S then \<lfloor>of_int S * (3 / 4 :: rat)\<rfloor> else \<lceil>of_int S * (3 / 4 :: rat)\<rceil>)"
  by (simp add: py_int_def zero_le_mult_iff)

text \<open>
  C3, amended. The call fails with the missing-parameter error exactly when it reaches
  the dispatch (mvsfunc is available and the clip is accepted) with a mode string that
  lowers to \<^verbatim>\<open>dft\<close> or \<^verbatim>\<open>dfttest\<close> and \<^verbatim>\<open>kwargs\<close> has no key \<^verbatim>\<open>sbsize\<close>. When
  such a call has \<^verbatim>\<open>sbsize = S\<close>, an integer of absolute value below \<open>2^51\<close>, and
  \<^verbatim>\<open>kwargs\<close> has no key \<^verbatim>\<open>sosize\<close>, both chroma planes go to DFTTest with all of
  \<^verbatim>\<open>kwargs\<close> and \<^verbatim>\<open>sosize = int(S * 0.75)\<close>, which is \<open>S * 0.75\<close> truncated towards
  zero: the floor for \<open>S \<ge> 0\<close>, the ceiling for \<open>S < 0\<close>.
\<close>

theorem quick_denoise_dft:
  "((quick_denoise e clip ref cmode sigma kw = Inl MissingParameterError) =
      (mvsfunc_available e \<and> accepted clip \<and>
       (\<exists>s. cmode = CStr s \<and> lower s \<in> set [''dft'', ''dfttest'']) \<and>
       map_of kw ''sbsize'' = None)) \<and>
   (mvsfunc_available e \<and> accepted clip \<and> lower s \<in> set [''dft'', ''dfttest''] \<and>
    map_of kw ''sbsize'' = Some (KInt S) \<and> \<bar>S\<bar> < 2 ^ 51 \<and> map_of kw ''sosize'' = None \<longrightarrow>
    quick_denoise e clip ref (CStr s) sigma kw =
      Inr (join
        [BM3D (Plane (Src clip) 0) sigma 0 1
           (case ref of None \<Rightarrow> Plane (Src clip) 0 | Some x \<Rightarrow> Src x),
         DFTTest (Plane (Src clip) 1)
           ((''sosize'', KInt (if 0 \<le> S then \<lfloor>of_int S * (3 / 4 :: rat)\<rfloor>
                               else \<lceil>of_int S * (3 / 4 :: rat)\<rceil>)) # kw),
         DFTTest (Plane (Src clip) 2)
           ((''sosize'', KInt (if 0 \<le> S then \<lfloor>of_int S * (3 / 4 :: rat)\<rfloor>
                               else \<lceil>of_int S * (3 / 4 :: rat)\<rceil>)) # kw)]))"
  unfolding MissingParameterError_def py_int_three_quarters [symmetric]
  using quick_denoise_sbsize_error_iff quick_denoise_sbsize_int by blast

theorem quick_denoise_dft_witness:
  "quick_denoise all_installed (clip_of YUV420P8) None (CStr ''DFT'') (PInt 2) [] =
     Inl MissingParameterError \<and>
   quick_denoise all_installed (clip_of YUV420P8) None (CStr ''DFT'') (PInt 2)
       [(''sbsize'', KInt 16)] =
     Inr (join
       [BM3D (Plane (Src (clip_of YUV420P8)) 0) (PInt 2) 0 1 (Plane (Src (clip_of YUV420P8)) 0),
        DFTTest (Plane (Src (clip_of YUV420P8)) 1) [(''sosize'', KInt 12), (''sbsize'', KInt 16)],
        DFTTest (Plane (Src (clip_of YUV420P8)) 2) [(''sosize'', KInt 12), (''sbsize'', KInt 16)]])"
proof -
  have e: "mvsfunc_available all_installed"
    by (simp add: all_installed_def)
  have c: "accepted (clip_of YUV420P8)"
    by (simp add: accepted_def clip_of_def YUV420P8_def)
  have l: "lower ''DFT'' = ''dft''"
    by code_simp
  have fl: "\<lfloor>of_int 16 * (3 / 4 :: rat)\<rfloor> = 12"
    by simp
  have "quick_denoise all_installed (clip_of YUV420P8) None (CStr ''DFT'') (PInt 2) [] =
      Inl MissingParameterError"
    using quick_denoise_dft [of all_installed "clip_of YUV420P8" None "CStr ''DFT''" "PInt 2" "[]"]
      e c l by auto
  moreover have "quick_denoise all_installed (clip_of YUV420P8) None (CStr ''DFT'') (PInt 2)
       [(''sbsize'', KInt 16)] =
     Inr (join
       [BM3D (Plane (Src (clip_of YUV420P8)) 0) (PInt 2) 0 1 (Plane (Src (clip_of YUV420P8)) 0),
        DFTTest (Plane (Src (clip_of YUV420P8)) 1) [(''sosize'', KInt 12), (''sbsize'', KInt 16)],
        DFTTest (Plane (Src (clip_of YUV420P8)) 2) [(''sosize'', KInt 12), (''sbsize'', KInt 16)]])"
    using quick_denoise_dft [of all_installed "clip_of YUV420P8" None "CStr ''DFT''" "PInt 2"
        "[(''sbsize'', KInt 16)]" "''DFT''" 16] e c l fl
    by simp
  ultimately show ?thesis
    by simp
qed

text \<open>
  C3, as the claim states it, fails at \<^verbatim>\<open>sbsize = -1\<close>: the source passes
  \<^verbatim>\<open>sosize = int(-0.75) = 0\<close>, and the floor of \<open>-0.75\<close> is \<open>-1\<close>.
\<close>

theorem quick_denoise_dft_counterexample:
  "quick_denoise all_installed (clip_of YUV420P8) None (CStr ''dft'') (PInt 2)
       [(''sbsize'', KInt (- 1))] =
     Inr (join
       [BM3D (Plane (Src (clip_of YUV420P8)) 0) (PInt 2) 0 1 (Plane (Src (clip_of YUV420P8)) 0),
        DFTTest (Plane (Src (clip_of YUV420P8)) 1) [(''sosize'', KInt 0), (''sbsize'', KInt (- 1))],
        DFTTest (Plane (Src (clip_of YUV420P8)) 2) [(''sosize'', KInt 0), (''sbsize'', KInt (- 1))]]) \<and>
   \<lfloor>of_int (- 1) * (3 / 4 :: rat)\<rfloor> = (- 1 :: int)"
proof -
  have "\<lfloor>of_int (- 1) * (3 / 4 :: rat)\<rfloor> = (- 1 :: int)"
    by (simp add: floor_eq_iff)
  moreover have "quick_denoise all_installed (clip_of YUV420P8) None (CStr ''dft'') (PInt 2)
       [(''sbsize'', KInt (- 1))] =
     Inr (join
       [BM3D (Plane (Src (clip_of YUV420P8)) 0) (PInt 2) 0 1 (Plane (Src (clip_of YUV420P8)) 0),
        DFTTest (Plane (Src (clip_of YUV420P8)) 1) [(''sosize'', KInt 0), (''sbsize'', KInt (- 1))],
        DFTTest (Plane (Src (clip_of YUV420P8)) 2) [(''sosize'', KInt 0), (''sbsize'', KInt (- 1))]])"
    by code_simp
  ultimately show ?thesis
    by simp
qed

text \<open>
  A key \<^verbatim>\<open>sosize\<close> in \<^verbatim>\<open>kwargs\<close> repeats the keyword that the source writes itself:
  Python raises \<^verbatim>\<open>TypeError\<close> and no plane reaches DFTTest.
\<close>

lemma quick_denoise_sosize_clash:
  "quick_denoise all_installed (clip_of YUV420P8) None (CStr ''dft'') (PInt 2)
       [(''sbsize'', KInt 16), (''sosize'', KInt 8)] =
     Inl (TypeError_multiple_values ''sosize'')"
  by code_simp

section \<open>Detector A of \<^verbatim>\<open>detail_mask\<close>\<close>

lemma den_format_valid:
  "std_supported (sample_format f) \<Longrightarrow> den_format f sigma = sample_format f"
  by (auto simp: den_format_def std_supported_def sample_format_def depth_format_def
      split: option.splits sample_type.splits)

lemma get_y_luma:
  "family \<in> set [YUV, YCOCG, GRAY] \<Longrightarrow>
   get_y family c = Inr (if family = GRAY then c else GetY c)"
  by (simp add: get_y_def del: list.set)

lemma mask_a_valid:
  assumes "color_family f \<in> set [YUV, YCOCG, GRAY]" and "std_supported (sample_format f)"
  shows "mask_a f (sample_format f) den rad radc brz =
     Inr (Binarize
       (if bits_per_sample f < 16
        then Depth (Rangemask (Depth (if color_family f = GRAY then den else GetY den) 16) rad radc)
               (bits_per_sample f)
        else Rangemask (if color_family f = GRAY then den else GetY den) rad radc)
       brz)"
proof (cases "sample_type f")
  case INTEGER
  with assms(2) have b: "8 \<le> bits_per_sample f" "bits_per_sample f \<le> 16"
    by (simp_all add: std_supported_def sample_format_def)
  then show ?thesis
    using INTEGER
    by (simp add: mask_a_def get_y_luma [OF assms(1)] sample_format_def depth_def depth_format_def
        rangemask_def binarize_def std_supported_def del: list.set)
next
  case FLOAT
  with assms(2) have b: "bits_per_sample f = 32"
    by (simp add: std_supported_def sample_format_def)
  then show ?thesis
    using FLOAT
    by (simp add: mask_a_def get_y_luma [OF assms(1)] sample_format_def depth_def depth_format_def
        rangemask_def binarize_def std_supported_def del: list.set)
qed

lemma mask_b_valid:
  assumes "color_family f \<in> set [YUV, YCOCG, GRAY]" and "std_supported (sample_format f)"
  shows "mask_b f (sample_format f) den brz =
     Inr (Binarize (Prewitt (if color_family f = GRAY then den else GetY den)) brz)"
  using assms(2)
  by (simp add: mask_b_def get_y_luma [OF assms(1)] prewitt_def binarize_def del: list.set)

text \<open>
  C5. For every validly formatted clip (and with debandshit available) the call returns,
  and detector A proceeds as the claim says: it takes the luma plane of \<open>den_a\<close>,
  converts it to a 16-bit intermediate if and only if the clip has fewer than 16 bits per
  sample, computes the range mask with the radii \<^verbatim>\<open>rad\<close> and \<^verbatim>\<open>radc\<close>, converts the
  result back to the bits per sample of the clip, and binarizes it at the (rescaled)
  threshold \<^verbatim>\<open>brz_a\<close>. The source asks for \<^verbatim>\<open>depth(..., 16)\<close> below 32 bits, which
  on a 16-bit integer plane hands back the plane itself; at 16 bits and at 32 bits the
  range mask already has the sample format of the clip and the conversion back hands it
  back as well.
\<close>

theorem detail_mask_detector_a:
  assumes "debandshit_available e" and "format clip = Some f" and "validly_formatted f"
  shows "detail_mask e clip sigma rad radc brz_a brz_b =
     Inr (let y = (if color_family f = GRAY then den_a clip sigma else GetY (den_a clip sigma));
              a = Binarize
                    (if bits_per_sample f < 16
                     then Depth (Rangemask (Depth y 16) rad radc) (bits_per_sample f)
                     else Rangemask y rad radc)
                    (scale_brz f brz_a);
              b = Binarize
                    (Prewitt (if color_family f = GRAY then den_b clip sigma
                              else GetY (den_b clip sigma)))
                    (scale_brz f brz_b);
              m = merge a b;
              m' = PickRemovegrain m m 22
          in PickRemovegrain m' m' 11)"
proof -
  from assms(3) have v: "color_family f \<in> set [YUV, YCOCG, GRAY]" "std_supported (sample_format f)"
    by (simp_all add: validly_formatted_def del: list.set)
  show ?thesis
    by (simp add: detail_mask_def assms(1,2) den_format_valid [OF v(2)] mask_a_valid [OF v]
        mask_b_valid [OF v] Let_def del: list.set)
qed


theorem detail_mask_detector_a_witness:
  "detail_mask all_installed (clip_of YUV420P8) None 3 2 (PFloat (1 / 200)) (PFloat (1 / 200)) =
     Inr (let a = Binarize
                    (Depth (Rangemask (Depth (GetY (Src (clip_of YUV420P8))) 16) 3 2) 8)
                    (ScaleValue (PFloat (1 / 200)) 32 8);
              b = Binarize (Prewitt (GetY (Src (clip_of YUV420P8))))
                    (ScaleValue (PFloat (1 / 200)) 32 8);
              m = merge a b;
              m' = PickRemovegrain m m 22
          in PickRemovegrain m' m' 11) \<and>
   detail_mask all_installed (clip_of YUV420P16) None 3 2 (PFloat (1 / 200)) (PFloat (1 / 200)) =
     Inr (let a = Binarize (Rangemask (GetY (Src (clip_of YUV420P16))) 3 2)
                    (ScaleValue (PFloat (1 / 200)) 32 16);
              b = Binarize (Prewitt (GetY (Src (clip_of YUV420P16))))
                    (ScaleValue (PFloat (1 / 200)) 32 16);
              m = merge a b;
              m' = PickRemovegrain m m 22
          in PickRemovegrain m' m' 11)"
proof -
  have e: "debandshit_available all_installed"
    by (simp add: all_installed_def)
  have f8: "format (clip_of YUV420P8) = Some YUV420P8"
    and f16: "format (clip_of YUV420P16) = Some YUV420P16"
    by (simp_all add: clip_of_def)
  have v8: "validly_formatted YUV420P8" and v16: "validly_formatted YUV420P16"
    by (simp_all add: validly_formatted_def std_supported_def sample_format_def
        YUV420P8_def YUV420P16_def)
  show ?thesis
    using detail_mask_detector_a [OF e f8 v8, of None 3 2 "PFloat (1 / 200)" "PFloat (1 / 200)"]
      detail_mask_detector_a [OF e f16 v16, of None 3 2 "PFloat (1 / 200)" "PFloat (1 / 200)"]
    by (simp add: YUV420P8_def YUV420P16_def den_a_def den_b_def scale_brz_def get_depth_def)
qed

text \<open>
  Outside the validly formatted clips the call raises: an RGB clip has no luma plane
  (line 166), and a half-float clip is refused by \<^verbatim>\<open>std.Prewitt\<close> (line 171).
\<close>

lemma detail_mask_rgb:
  "detail_mask all_installed (clip_of RGB24) None 3 2 (PFloat (1 / 200)) (PFloat (1 / 200)) =
     Inl (ValueError luma_msg)"
  by (simp add: detail_mask_def all_installed_def clip_of_def RGB24_def mask_a_def get_y_def)

lemma detail_mask_half_float:
  "detail_mask all_installed (clip_of YUV444PH) None 3 2 (PFloat (1 / 200)) (PFloat (1 / 200)) =
     Inl (VapourSynthError ''Prewitt'')"
  by (simp add: detail_mask_def all_installed_def clip_of_def YUV444PH_def mask_a_def mask_b_def
      get_y_def den_format_def sample_format_def depth_format_def depth_def rangemask_def
      binarize_def prewitt_def std_supported_def)

text \<open>
  Every call that returns, also one on a blurred copy of a clip that is not validly
  formatted, has run detector A in the same way.
\<close>

lemma den_format_bits: "fst (den_format f sigma) = bits_per_sample f"
  by (simp add: den_format_def sample_format_def depth_format_def split: option.splits)

lemma std_supported_cases:
  "std_supported sf = (sf = (32, FLOAT) \<or> (snd sf = INTEGER \<and> 8 \<le> fst sf \<and> fst sf \<le> 16))"
  by (cases sf; cases "snd sf") (auto simp: std_supported_def)

lemma mask_a_returned:
  assumes "mask_a f dsf den rad radc brz = Inr a" and "fst dsf = bits_per_sample f"
    and "std_supported dsf"
  shows "color_family f \<in> set [YUV, YCOCG, GRAY] \<and>
     a = Binarize
       (if bits_per_sample f < 16
        then Depth (Rangemask (Depth (if color_family f = GRAY then den else GetY den) 16) rad radc)
               (bits_per_sample f)
        else Rangemask (if color_family f = GRAY then den else GetY den) rad radc)
       brz"
proof -
  from assms(1) have l: "color_family f \<in> set [YUV, YCOCG, GRAY]"
    by (auto simp: mask_a_def get_y_def simp del: list.set split: if_splits)
  from assms(2,3) have
    "dsf = (bits_per_sample f, INTEGER) \<and> 8 \<le> bits_per_sample f \<and> bits_per_sample f \<le> 16 \<or>
     dsf = (32, FLOAT) \<and> bits_per_sample f = 32"
    by (cases dsf) (auto simp: std_supported_cases)
  then show ?thesis
    using assms(1) l
    by (auto simp: mask_a_def get_y_luma [OF l] depth_def depth_format_def rangemask_def
        binarize_def std_supported_cases Let_def simp del: list.set split: if_splits)
qed

lemma detail_mask_returned:
  assumes "detail_mask e clip sigma rad radc brz_a brz_b = Inr r"
  shows "\<exists>f b. format clip = Some f \<and> color_family f \<in> set [YUV, YCOCG, GRAY] \<and>
     r = (let y = (if color_family f = GRAY then den_a clip sigma else GetY (den_a clip sigma));
              a = Binarize
                    (if bits_per_sample f < 16
                     then Depth (Rangemask (Depth y 16) rad radc) (bits_per_sample f)
                     else Rangemask y rad radc)
                    (scale_brz f brz_a);
              m = merge a b;
              m' = PickRemovegrain m m 22
          in PickRemovegrain m' m' 11)"
proof -
  from assms obtain f where f: "format clip = Some f"
    by (auto simp: detail_mask_def split: if_splits option.splits)
  from assms f obtain a b where
    a: "mask_a f (den_format f sigma) (den_a clip sigma) rad radc (scale_brz f brz_a) = Inr a" and
    b: "mask_b f (den_format f sigma) (den_b clip sigma) (scale_brz f brz_b) = Inr b" and
    r: "r = (let m = merge a b; m' = PickRemovegrain m m 22 in PickRemovegrain m' m' 11)"
    by (auto simp: detail_mask_def and_then_def Let_def split: if_splits sum.splits)
  from b have s: "std_supported (den_format f sigma)"
    by (auto simp: mask_b_def prewitt_def and_then_def split: if_splits sum.splits)
  from mask_a_returned [OF a den_format_bits s] f r show ?thesis
    by (auto simp: Let_def simp del: list.set)
qed

section \<open>The thresholds of \<^verbatim>\<open>detail_mask\<close>\<close>

text \<open>
  C2, on the code. For a clip that is not at 32 bits a float threshold is rescaled from
  depth 32 to the depth of the clip, as the claim says. For a clip at 32 bits an integer
  threshold is handed to \<^verbatim>\<open>scale_value(brz, get_depth(clip), 32)\<close>, and in that branch
  \<^verbatim>\<open>get_depth(clip)\<close> is 32: the call is \<^verbatim>\<open>scale_value(brz, 32, 32)\<close>, from the
  float range to the float range, and no integer range enters it. The last conjunct is
  the call on a GRAYS clip with \<^verbatim>\<open>brz_a = 128\<close>.
\<close>

theorem scale_brz_cases:
  "scale_brz f (PFloat x) =
     (if get_depth f = 32 then Unscaled (PFloat x) else ScaleValue (PFloat x) 32 (get_depth f)) \<and>
   scale_brz f (PInt i) =
     (if get_depth f = 32 then ScaleValue (PInt i) 32 32 else Unscaled (PInt i)) \<and>
   detail_mask all_installed (clip_of GRAYS) None 3 2 (PInt 128) (PFloat (1 / 200)) =
     Inr (let a = Binarize (Rangemask (Src (clip_of GRAYS)) 3 2) (ScaleValue (PInt 128) 32 32);
              m = merge a (Binarize (Prewitt (Src (clip_of GRAYS))) (Unscaled (PFloat (1 / 200))));
              m' = PickRemovegrain m m 22
          in PickRemovegrain m' m' 11)"
  by (simp add: detail_mask_def all_installed_def clip_of_def GRAYS_def mask_a_def mask_b_def
      get_y_def den_format_def sample_format_def depth_format_def depth_def rangemask_def
      binarize_def prewitt_def std_supported_def den_a_def den_b_def scale_brz_def
      get_depth_def Let_def)

section \<open>The mode given as a string\<close>

text \<open>
  The string half of C1 holds on the code. After \<^verbatim>\<open>cmode.lower()\<close> the mode is a
  string, so the integers of the dispatch lists never match, and the strings select the
  filter families as documented; every other string gives the unknown-mode error.
\<close>

lemma chroma_str:
  "chroma e (CStr t) kw planes =
     (if t \<in> set [''knlm'', ''knlmeanscl''] then
        and_then (set_plane 1 (knlm kw) planes) (set_plane 2 (knlm kw))
      else if t \<in> set [''tnlm'', ''tnlmeans''] then
        and_then (set_plane 1 (tnlm kw) planes) (set_plane 2 (tnlm kw))
      else if t \<in> set [''dft'', ''dfttest''] then
        (case map_of kw ''sbsize'' of
           None \<Rightarrow> Inl (ValueError sbsize_msg)
         | Some sbsize \<Rightarrow>
             and_then (set_plane 1 (dfttest sbsize kw) planes) (set_plane 2 (dfttest sbsize kw)))
      else if t \<in> set [''smd'', ''smdegrain''] then
        (if havsfunc_available e
         then and_then (set_plane 1 (smdegrain kw) planes) (set_plane 2 (smdegrain kw))
         else Inl (ModuleNotFoundError havsfunc_msg))
      else Inl (ValueError unknown_cmode_msg))"
  unfolding chroma_def by simp

lemma quick_denoise_str_cmode:
  assumes "mvsfunc_available e" and "accepted clip"
  shows "quick_denoise e clip ref (CStr s) sigma kw =
     and_then (chroma e (CStr (lower s)) kw
        [Plane (Src clip) 0, Plane (Src clip) 1, Plane (Src clip) 2]) (\<lambda>planes.
     and_then (luma ref sigma planes) (\<lambda>planes'. Inr (join planes')))"
proof -
  from assms obtain f where f: "mvsfunc_available e" "format clip = Some f"
      "color_family f \<in> set [YUV, YCOCG, RGB]"
    by (auto simp: accepted_def simp del: list.set split: option.splits)
  show ?thesis
    by (simp add: quick_denoise_accepted [OF f] py_lower_def)
qed

lemma quick_denoise_unknown_str:
  assumes "mvsfunc_available e" and "accepted clip"
    and "lower s \<notin> set [''knlm'', ''knlmeanscl'', ''tnlm'', ''tnlmeans'', ''dft'', ''dfttest'',
          ''smd'', ''smdegrain'']"
  shows "quick_denoise e clip ref (CStr s) sigma kw = Inl UnknownModeError"
  using assms(3)
  by (simp add: quick_denoise_str_cmode [OF assms(1,2)] chroma_str UnknownModeError_def)

lemma quick_denoise_knlm_str:
  assumes "mvsfunc_available e" and "accepted clip"
    and "lower s \<in> set [''knlm'', ''knlmeanscl'']"
  shows "quick_denoise e clip ref (CStr s) sigma kw =
     and_then (call_kwargs [(''d'', KInt 3), (''a'', KInt 2)] kw) (\<lambda>args.
       Inr (join
         [BM3D (Plane (Src clip) 0) sigma 0 1
            (case ref of None \<Rightarrow> Plane (Src clip) 0 | Some x \<Rightarrow> Src x),
          KNLMeansCL (Plane (Src clip) 1) args,
          KNLMeansCL (Plane (Src clip) 2) args]))"
proof -
  have c: "chroma e (CStr (lower s)) kw ps =
      and_then (set_plane 1 (knlm kw) ps) (set_plane 2 (knlm kw))" for ps
    using assms by (auto simp: chroma_str)
  show ?thesis
    unfolding quick_denoise_str_cmode [OF assms(1,2)] c chroma_pair knlm_def
    by (cases "call_kwargs [(''d'', KInt 3), (''a'', KInt 2)] kw") (simp_all add: luma_three)
qed

lemma quick_denoise_tnlm_str:
  assumes "mvsfunc_available e" and "accepted clip"
    and "lower s \<in> set [''tnlm'', ''tnlmeans'']"
  shows "quick_denoise e clip ref (CStr s) sigma kw =
     and_then (call_kwargs [(''ax'', KInt 2), (''ay'', KInt 2), (''az'', KInt 2)] kw) (\<lambda>args.
       Inr (join
         [BM3D (Plane (Src clip) 0) sigma 0 1
            (case ref of None \<Rightarrow> Plane (Src clip) 0 | Some x \<Rightarrow> Src x),
          TNLMeans (Plane (Src clip) 1) args,
          TNLMeans (Plane (Src clip) 2) args]))"
proof -
  have c: "chroma e (CStr (lower s)) kw ps =
      and_then (set_plane 1 (tnlm kw) ps) (set_plane 2 (tnlm kw))" for ps
    using assms by (auto simp: chroma_str)
  show ?thesis
    unfolding quick_denoise_str_cmode [OF assms(1,2)] c chroma_pair tnlm_def
    by (cases "call_kwargs [(''ax'', KInt 2), (''ay'', KInt 2), (''az'', KInt 2)] kw") (simp_all add: luma_three)
qed

lemma quick_denoise_smd_str:
  assumes "mvsfunc_available e" and "accepted clip" and "havsfunc_available e"
    and "lower s \<in> set [''smd'', ''smdegrain'']"
  shows "quick_denoise e clip ref (CStr s) sigma kw =
     and_then (call_kwargs [(''prefilter'', KInt 3)] kw) (\<lambda>args.
       Inr (join
         [BM3D (Plane (Src clip) 0) sigma 0 1
            (case ref of None \<Rightarrow> Plane (Src clip) 0 | Some x \<Rightarrow> Src x),
          SMDegrain (Plane (Src clip) 1) args,
          SMDegrain (Plane (Src clip) 2) args]))"
proof -
  have c: "chroma e (CStr (lower s)) kw ps =
      and_then (set_plane 1 (smdegrain kw) ps) (set_plane 2 (smdegrain kw))" for ps
    using assms by (auto simp: chroma_str)
  show ?thesis
    unfolding quick_denoise_str_cmode [OF assms(1,2)] c chroma_pair smdegrain_def
    by (cases "call_kwargs [(''prefilter'', KInt 3)] kw") (simp_all add: luma_three)
qed

end
